theory Spec2Isabelle
  imports Main
begin

section \<open>JavaScript values, objects and the heap\<close>

text \<open>
  The library (src/constants.ts, src/utils.ts) works on JavaScript values. Objects have
  identity and are mutable, so they live in a heap and values hold their addresses.
  A view (\<open>new Proxy(target, IMMUTABLE_STATE_PROXY_HANDLER)\<close>) is a value \<open>VProxy target\<close>;
  the identity of the Proxy object itself is not recorded. Functions supplied by the
  caller (selectors, combiners, factories, mutations) are values \<open>VFun f\<close> whose behaviour
  is looked up in an environment.
\<close>

type_synonym addr = nat
type_synonym fid = nat

datatype key = KStr string | KIdx nat | KSym nat

datatype val =
    VUndefined
  | VNull
  | VBool bool
  | VNum int
  | VNaN
  | VStr string
  | VSym nat
  | VObj addr
  | VProxy val
  | VFun fid

type_synonym obj = "key \<Rightarrow> val option"
type_synonym heap = "obj list"

datatype error = ReferenceError string | TypeError | Thrown val

text \<open>The result of running code: a value or a raised error, and the heap afterwards.\<close>

type_synonym 'a result = "(error + 'a) \<times> heap"

fun typeof :: "val \<Rightarrow> string" where
  "typeof VUndefined = ''undefined''"
| "typeof VNull = ''object''"
| "typeof (VBool b) = ''boolean''"
| "typeof (VNum n) = ''number''"
| "typeof VNaN = ''number''"
| "typeof (VStr s) = ''string''"
| "typeof (VSym n) = ''symbol''"
| "typeof (VObj a) = ''object''"
| "typeof (VProxy t) = (if typeof t = ''function'' then ''function'' else ''object'')"
| "typeof (VFun f) = ''function''"

fun truthy :: "val \<Rightarrow> bool" where
  "truthy VUndefined = False"
| "truthy VNull = False"
| "truthy (VBool b) = b"
| "truthy (VNum n) = (n \<noteq> 0)"
| "truthy VNaN = False"
| "truthy (VStr s) = (s \<noteq> [])"
| "truthy v = True"

text \<open>\<open>a === b\<close>: equality of primitives and identity of objects, with \<open>NaN !== NaN\<close>.\<close>

definition strict_eq :: "val \<Rightarrow> val \<Rightarrow> bool" where
  "strict_eq a b = (a = b \<and> a \<noteq> VNaN)"

definition alloc :: "heap \<Rightarrow> obj \<Rightarrow> addr \<times> heap" where
  "alloc h ob = (length h, h @ [ob])"

text \<open>An array literal \<open>[x0, ..., xn]\<close> as an object: indices and \<open>length\<close>.\<close>

definition array_obj :: "val list \<Rightarrow> obj" where
  "array_obj xs = (\<lambda>k. case k of
       KIdx i \<Rightarrow> (if i < length xs then Some (xs ! i) else None)
     | KStr s \<Rightarrow> (if s = ''length'' then Some (VNum (int (length xs))) else None)
     | KSym n \<Rightarrow> None)"

text \<open>Reading an array object back as the list of its elements.\<close>

definition array_elems :: "obj \<Rightarrow> val list" where
  "array_elems ob = (case ob (KStr ''length'') of
       Some (VNum n) \<Rightarrow> map (\<lambda>i. case ob (KIdx i) of Some v \<Rightarrow> v | None \<Rightarrow> VUndefined) [0..<nat n]
     | _ \<Rightarrow> [])"

section \<open>src/constants.ts\<close>

text \<open>\<open>Symbol("default")\<close> and \<open>Symbol()\<close>: two distinct symbols.\<close>

definition STORES_REGISTRY_DEFAULT_KEY :: key where
  "STORES_REGISTRY_DEFAULT_KEY = KSym 0"

definition IMMUTABLE_STATE_PROXY_UNWRAP_KEY :: key where
  "IMMUTABLE_STATE_PROXY_UNWRAP_KEY = KSym 1"

definition OBJECT_TYPES_TYPEOF_VALUES :: "string list" where
  "OBJECT_TYPES_TYPEOF_VALUES = [''object'', ''function'']"

text \<open>
  \<open>get_prop h v k\<close> is the property read \<open>v[k]\<close> on a value that is not \<open>undefined\<close> or
  \<open>null\<close>: a field of a heap object (\<open>undefined\<close> when absent), the \<open>get\<close> trap on a view,
  \<open>undefined\<close> on a primitive. The trap is the \<open>get\<close> of IMMUTABLE_STATE_PROXY_HANDLER:
  the unwrap key gives the target itself; a field whose value is object-typed and not
  null is wrapped in a new view; any other field is returned as it is.

  A heap object is the record of its own data fields, all of them writable. Properties
  of function values, properties inherited from a prototype and property attributes
  (frozen objects, on which a wrapping read through a view raises a TypeError) are not
  represented: a read of them gives \<open>undefined\<close> here. The statements about views are
  therefore made about a view and about one read through a view, whatever the target
  is, and say nothing about what is reached through values that are not views.
\<close>

fun get_prop :: "heap \<Rightarrow> val \<Rightarrow> key \<Rightarrow> val"
  and IMMUTABLE_STATE_PROXY_HANDLER_get :: "heap \<Rightarrow> val \<Rightarrow> key \<Rightarrow> val" where
  "get_prop h (VObj a) k =
     (if a < length h then (case (h ! a) k of Some v \<Rightarrow> v | None \<Rightarrow> VUndefined)
      else VUndefined)"
| "get_prop h (VProxy t) k = IMMUTABLE_STATE_PROXY_HANDLER_get h t k"
| "get_prop h VUndefined k = VUndefined"
| "get_prop h VNull k = VUndefined"
| "get_prop h (VBool b) k = VUndefined"
| "get_prop h (VNum n) k = VUndefined"
| "get_prop h VNaN k = VUndefined"
| "get_prop h (VStr s) k = VUndefined"
| "get_prop h (VSym n) k = VUndefined"
| "get_prop h (VFun f) k = VUndefined"
| "IMMUTABLE_STATE_PROXY_HANDLER_get h target key =
     (if key = IMMUTABLE_STATE_PROXY_UNWRAP_KEY then target
      else if typeof (get_prop h target key) = ''object'' \<and> get_prop h target key \<noteq> VNull
        then VProxy (get_prop h target key)
      else get_prop h target key)"

text \<open>The \<open>set\<close> trap: it throws whatever the target, key and value are.\<close>

definition IMMUTABLE_STATE_PROXY_HANDLER_set :: "heap \<Rightarrow> val \<Rightarrow> key \<Rightarrow> val \<Rightarrow> unit result" where
  "IMMUTABLE_STATE_PROXY_HANDLER_set h target key v =
     (Inl (ReferenceError ''Mutations in selectors are not allowed.''), h)"

text \<open>
  The property read \<open>v[k]\<close> and the assignment \<open>v[k] = x\<close> of the language: both raise a
  TypeError on \<open>undefined\<close> and \<open>null\<close>; an assignment to a heap object updates the heap,
  an assignment through a view runs the \<open>set\<close> trap, an assignment to a primitive or a
  function value is not recorded.
\<close>

definition read :: "heap \<Rightarrow> val \<Rightarrow> key \<Rightarrow> error + val" where
  "read h v k = (if v = VUndefined \<or> v = VNull then Inl TypeError else Inr (get_prop h v k))"

fun assign :: "heap \<Rightarrow> val \<Rightarrow> key \<Rightarrow> val \<Rightarrow> unit result" where
  "assign h (VObj a) k x =
     (if a < length h then (Inr (), h[a := (h ! a)(k := Some x)]) else (Inr (), h))"
| "assign h (VProxy t) k x = IMMUTABLE_STATE_PROXY_HANDLER_set h t k x"
| "assign h VUndefined k x = (Inl TypeError, h)"
| "assign h VNull k x = (Inl TypeError, h)"
| "assign h v k x = (Inr (), h)"

section \<open>The environment: caller-supplied functions, stores, string conversion\<close>

text \<open>
  A function value has a declared name and a behaviour: called with a list of arguments
  on a heap it returns a value or raises, and may change the heap. A store (Vuex) holds
  the root state and applies a named mutation to a payload; what a mutation does is the
  store's business. \<open>env_provided k\<close> is the store that \<open>useStore(k)\<close> injects, if any.
  \<open>env_objectToString\<close> is the string conversion of an object or function value, which runs
  the caller's own \<open>toString\<close>.
\<close>

record fn =
  fn_name :: string
  fn_call :: "val list \<Rightarrow> heap \<Rightarrow> val result"

record store =
  store_id :: nat
  store_state :: val
  store_mutate :: "val \<Rightarrow> val \<Rightarrow> heap \<Rightarrow> unit result"

record env =
  env_functions :: "fid \<Rightarrow> fn"
  env_provided :: "key option \<Rightarrow> store option"
  env_objectToString :: "heap \<Rightarrow> val \<Rightarrow> error + string"

definition useStore :: "env \<Rightarrow> key option \<Rightarrow> store option" where
  "useStore env k = env_provided env k"

text \<open>The call \<open>f(args)\<close>: a TypeError when \<open>f\<close> is not callable.\<close>

fun call :: "env \<Rightarrow> val \<Rightarrow> val list \<Rightarrow> heap \<Rightarrow> val result" where
  "call env (VFun f) args h = fn_call (env_functions env f) args h"
| "call env (VProxy t) args h = call env t args h"
| "call env VUndefined args h = (Inl TypeError, h)"
| "call env VNull args h = (Inl TypeError, h)"
| "call env (VBool b) args h = (Inl TypeError, h)"
| "call env (VNum n) args h = (Inl TypeError, h)"
| "call env VNaN args h = (Inl TypeError, h)"
| "call env (VStr s) args h = (Inl TypeError, h)"
| "call env (VSym n) args h = (Inl TypeError, h)"
| "call env (VObj a) args h = (Inl TypeError, h)"

text \<open>
  \<open>f.apply(null, args)\<close>: reading \<open>apply\<close> on \<open>undefined\<close> or \<open>null\<close> raises; on a function
  it is Function.prototype.apply, which calls \<open>f\<close> with \<open>args\<close>; on any other value it is
  the value's own \<open>apply\<close> field, called with \<open>null\<close> and the array, or a TypeError when
  that field is not a function.
\<close>

definition apply_null :: "env \<Rightarrow> val \<Rightarrow> val list \<Rightarrow> heap \<Rightarrow> val result" where
  "apply_null env f args h =
     (if f = VUndefined \<or> f = VNull then (Inl TypeError, h)
      else if typeof f = ''function'' then call env f args h
      else if typeof (get_prop h f (KStr ''apply'')) = ''function''
        then (case alloc h (array_obj args) of
                (p, h') \<Rightarrow> call env (get_prop h f (KStr ''apply'')) [VNull, VObj p] h')
      else (Inl TypeError, h))"

text \<open>\<open>f.name\<close> of a function value.\<close>

fun function_name :: "env \<Rightarrow> val \<Rightarrow> val" where
  "function_name env (VFun f) = VStr (fn_name (env_functions env f))"
| "function_name env (VProxy t) = function_name env t"
| "function_name env v = VUndefined"

section \<open>src/utils.ts: createSelector\<close>

text \<open>\<open>xs[i] = v\<close> on an array: in range it replaces, beyond the end it extends.\<close>

definition array_set :: "val list \<Rightarrow> nat \<Rightarrow> val \<Rightarrow> val list" where
  "array_set xs i v =
     (if i < length xs then xs[i := v]
      else xs @ replicate (i - length xs) VUndefined @ [v])"

text \<open>
  The loop of the composed selector:
  \<open>for (let i = 0; i < args.length; i++) combinerArgs[i] = args[i](state)\<close>.
  An input selector that raises ends the evaluation.
\<close>

function selectors_loop ::
  "env \<Rightarrow> val list \<Rightarrow> val \<Rightarrow> nat \<Rightarrow> val list \<Rightarrow> heap \<Rightarrow> (val list) result" where
  "selectors_loop env args state i combinerArgs h =
     (if i < length args
      then (case call env (args ! i) [state] h of
              (Inl e, h') \<Rightarrow> (Inl e, h')
            | (Inr v, h') \<Rightarrow> selectors_loop env args state (i + 1) (array_set combinerArgs i v) h')
      else (Inr combinerArgs, h))"
  by pat_completeness auto
termination
  by (relation "measure (\<lambda>(env, args, state, i, combinerArgs, h). length args - i)") auto

declare selectors_loop.simps [simp del]

text \<open>
  \<open>createSelector(...args)\<close>: \<open>args.pop()\<close> takes the last argument as the combiner
  (\<open>undefined\<close> when there is none) and leaves the input selectors; nothing is checked
  and nothing is raised at this point, so the outcome is always the composed selector.
  The composed selector takes the state as its first argument.
\<close>

definition composed_selector :: "env \<Rightarrow> val list \<Rightarrow> val \<Rightarrow> val list \<Rightarrow> heap \<Rightarrow> val result" where
  "composed_selector env args combiner callArgs h =
     (case selectors_loop env args (case callArgs of [] \<Rightarrow> VUndefined | state # _ \<Rightarrow> state) 0 [] h of
        (Inl e, h') \<Rightarrow> (Inl e, h')
      | (Inr combinerArgs, h') \<Rightarrow> apply_null env combiner combinerArgs h')"

definition createSelector ::
  "env \<Rightarrow> val list \<Rightarrow> error + (val list \<Rightarrow> heap \<Rightarrow> val result)" where
  "createSelector env args =
     Inr (composed_selector env (butlast args) (if args = [] then VUndefined else last args))"

text \<open>
  The composition as the specification words it: every input selector is evaluated
  against the state in declaration order, one result per input, and the combiner is
  applied to the results in that order.
\<close>

fun eval_inputs :: "env \<Rightarrow> val list \<Rightarrow> val \<Rightarrow> heap \<Rightarrow> (val list) result" where
  "eval_inputs env [] state h = (Inr [], h)"
| "eval_inputs env (s # ss) state h =
     (case call env s [state] h of
        (Inl e, h') \<Rightarrow> (Inl e, h')
      | (Inr v, h') \<Rightarrow>
          (case eval_inputs env ss state h' of
             (Inl e, h'') \<Rightarrow> (Inl e, h'')
           | (Inr vs, h'') \<Rightarrow> (Inr (v # vs), h'')))"

definition compose_spec :: "env \<Rightarrow> val list \<Rightarrow> val \<Rightarrow> val \<Rightarrow> heap \<Rightarrow> val result" where
  "compose_spec env selectors c state h =
     (case eval_inputs env selectors state h of
        (Inl e, h') \<Rightarrow> (Inl e, h')
      | (Inr vs, h') \<Rightarrow> call env c vs h')"

section \<open>src/utils.ts: module state\<close>

text \<open>
  A getter stored in a registry is a closure; it is represented by the variables it
  closes over. The getter that \<open>useSelector\<close> builds closes over \<open>store\<close> and \<open>selector\<close>,
  the one that \<open>useSelectorCreator\<close> builds over \<open>store\<close>, \<open>selectorFactory\<close> and \<open>args\<close>.
  \<open>getter_id\<close> is the identity of the closure: the number of getters constructed before it.
\<close>

datatype getter_code =
    SelectorGetter "store option" val
  | FactoryGetter "store option" val "val list"

record getter =
  getter_id :: nat
  getter_body :: getter_code

text \<open>
  The state of the module and of what it acts on: the heap; \<open>CONFIGURATION.storeKey\<close>;
  the registry of \<open>createGetImmutableState\<close> (store key to top-level view); the one
  registry of \<open>createGetGetterRegistry\<close> (a Map from selector to getter) and the one of
  \<open>createGetSelectorFactoryRegistry\<close> (a Map from factory to a Map from key to getter),
  both empty until first used; the calls of \<open>store.commit\<close> made so far (store, type,
  payload); and the number of getters constructed so far.
\<close>

record world =
  w_heap :: heap
  storeKey :: "key option"
  immutableStateRegistry :: "key \<Rightarrow> val option"
  getterRegistry :: "val \<Rightarrow> getter option"
  selectorFactoryRegistry :: "val \<Rightarrow> (val \<Rightarrow> getter option) option"
  commits :: "(nat \<times> val \<times> val) list"
  created :: nat

definition useStoreInjectionKey :: "key option \<Rightarrow> world \<Rightarrow> world" where
  "useStoreInjectionKey k w = w\<lparr>storeKey := k\<rparr>"

text \<open>
  \<open>getImmutableState(state)\<close>: the view saved under the configured store key (the default
  key when none is configured) if there is one, whatever \<open>state\<close> is; otherwise a new view
  of \<open>state\<close>, saved. \<open>new Proxy\<close> raises a TypeError when its target is not an object.
\<close>

definition getImmutableState :: "val \<Rightarrow> world \<Rightarrow> (error + val) \<times> world" where
  "getImmutableState state w =
     (let k = (case storeKey w of None \<Rightarrow> STORES_REGISTRY_DEFAULT_KEY | Some sk \<Rightarrow> sk) in
      case immutableStateRegistry w k of
        Some view \<Rightarrow> (Inr view, w)
      | None \<Rightarrow>
          (if (typeof state = ''object'' \<or> typeof state = ''function'') \<and> state \<noteq> VNull
           then (Inr (VProxy state),
                 w\<lparr>immutableStateRegistry := (immutableStateRegistry w)(k := Some (VProxy state))\<rparr>)
           else (Inl TypeError, w)))"

definition checkImmutability :: "val \<Rightarrow> bool" where
  "checkImmutability v = (typeof v = ''object'' \<and> v \<noteq> VNull)"

text \<open>
  The last step of both getters:
  \<open>checkImmutability(selectorResult) ? selectorResult?.[IMMUTABLE_STATE_PROXY_UNWRAP_KEY] : selectorResult\<close>.
\<close>

definition unwrap_result :: "heap \<Rightarrow> val \<Rightarrow> val" where
  "unwrap_result h selectorResult =
     (if checkImmutability selectorResult
      then get_prop h selectorResult IMMUTABLE_STATE_PROXY_UNWRAP_KEY
      else selectorResult)"

text \<open>
  Vue's \<open>isRef(r)\<close> is \<open>!!(r && r.__v_isRef === true)\<close>, and \<open>r.value\<close> reads the reference.
\<close>

definition isRef :: "heap \<Rightarrow> val \<Rightarrow> bool" where
  "isRef h r = (truthy r \<and> get_prop h r (KStr ''__v_isRef'') = VBool True)"

definition arg_value :: "heap \<Rightarrow> val \<Rightarrow> val" where
  "arg_value h arg = (if isRef h arg then get_prop h arg (KStr ''value'') else arg)"

text \<open>
  Running a getter. Reading \<open>store.state\<close> raises a TypeError when no store was injected.
\<close>

definition eval_selector :: "env \<Rightarrow> val \<Rightarrow> val \<Rightarrow> world \<Rightarrow> (error + val) \<times> world" where
  "eval_selector env selector state w =
     (case call env selector [state] (w_heap w) of
        (Inl e, h') \<Rightarrow> (Inl e, w\<lparr>w_heap := h'\<rparr>)
      | (Inr selectorResult, h') \<Rightarrow> (Inr (unwrap_result h' selectorResult), w\<lparr>w_heap := h'\<rparr>))"

fun run_getter :: "env \<Rightarrow> getter_code \<Rightarrow> world \<Rightarrow> (error + val) \<times> world" where
  "run_getter env (SelectorGetter None selector) w = (Inl TypeError, w)"
| "run_getter env (SelectorGetter (Some st) selector) w =
     (case getImmutableState (store_state st) w of
        (Inl e, w1) \<Rightarrow> (Inl e, w1)
      | (Inr state, w1) \<Rightarrow> eval_selector env selector state w1)"
| "run_getter env (FactoryGetter None selectorFactory args) w = (Inl TypeError, w)"
| "run_getter env (FactoryGetter (Some st) selectorFactory args) w =
     (case getImmutableState (store_state st) w of
        (Inl e, w1) \<Rightarrow> (Inl e, w1)
      | (Inr state, w1) \<Rightarrow>
          (case apply_null env selectorFactory (map (arg_value (w_heap w1)) args) (w_heap w1) of
             (Inl e, h') \<Rightarrow> (Inl e, w1\<lparr>w_heap := h'\<rparr>)
           | (Inr selector, h') \<Rightarrow> eval_selector env selector state (w1\<lparr>w_heap := h'\<rparr>)))"

section \<open>src/utils.ts: useSelector\<close>

text \<open>
  The setter that \<open>useSelector\<close> builds closes over \<open>previousValue\<close> (declared without a
  value, so \<open>undefined\<close>), \<open>mutation\<close>, \<open>additionalPayload\<close> and \<open>store\<close>. Vue's \<open>computed\<close>
  keeps the getter, and the setter when there is one; the caching that Vue adds on top of
  the getter is not part of the module, and reading the reference runs the getter.
\<close>

record setter =
  previousValue :: val
  set_mutation :: val
  additionalPayload :: "val list"
  set_store :: "store option"

datatype computed_ref =
    ComputedRef getter
  | WritableComputedRef getter setter

fun ref_getter :: "computed_ref \<Rightarrow> getter" where
  "ref_getter (ComputedRef g) = g"
| "ref_getter (WritableComputedRef g s) = g"

text \<open>
  \<open>store.commit(type, payload)\<close>: the call is recorded and the store applies the mutation.
\<close>

definition commit :: "store \<Rightarrow> val \<Rightarrow> val \<Rightarrow> world \<Rightarrow> (error + unit) \<times> world" where
  "commit st type payload w =
     (case store_mutate st type payload (w_heap w) of
        (r, h') \<Rightarrow> (r, w\<lparr>w_heap := h', commits := commits w @ [(store_id st, type, payload)]\<rparr>))"

definition mutation_type :: "env \<Rightarrow> val \<Rightarrow> val" where
  "mutation_type env mutation =
     (if typeof mutation = ''function'' then function_name env mutation else mutation)"

text \<open>
  The setter: nothing when the value is strictly equal to \<open>previousValue\<close>; otherwise the
  payload is the value, or a copy of \<open>additionalPayload\<close> with the value pushed when
  \<open>additionalPayload\<close> is not empty; \<open>previousValue\<close> is assigned, then the store commits.
\<close>

definition make_payload :: "val list \<Rightarrow> val \<Rightarrow> heap \<Rightarrow> val \<times> heap" where
  "make_payload extra v h =
     (if extra \<noteq> [] then (case alloc h (array_obj (extra @ [v])) of (p, h') \<Rightarrow> (VObj p, h'))
      else (v, h))"

definition setter_set :: "env \<Rightarrow> setter \<Rightarrow> val \<Rightarrow> world \<Rightarrow> (error + unit) \<times> setter \<times> world" where
  "setter_set env s v w =
     (if strict_eq v (previousValue s) then (Inr (), s, w)
      else (case make_payload (additionalPayload s) v (w_heap w) of
              (payload, h1) \<Rightarrow>
                (case set_store s of
                   None \<Rightarrow> (Inl TypeError, s\<lparr>previousValue := v\<rparr>, w\<lparr>w_heap := h1\<rparr>)
                 | Some st \<Rightarrow>
                     (case commit st (mutation_type env (set_mutation s)) payload (w\<lparr>w_heap := h1\<rparr>) of
                        (r, w') \<Rightarrow> (r, s\<lparr>previousValue := v\<rparr>, w')))))"

text \<open>
  \<open>useSelector(selector, mutation, ...additionalPayload)\<close>; a call without a mutation has
  \<open>mutation = undefined\<close> and no additional payload. The getter is built and stored only
  when the registry has none for the selector, and \<open>get\<close> is what the registry then holds
  for the selector; the computed reference is writable when \<open>mutation\<close> is truthy.
\<close>

definition useSelector :: "env \<Rightarrow> val \<Rightarrow> val \<Rightarrow> val list \<Rightarrow> world \<Rightarrow> computed_ref \<times> world" where
  "useSelector env selector mutation extra w =
     (let store = useStore env (storeKey w) in
      case (case getterRegistry w selector of
              Some stored \<Rightarrow> (stored, w)
            | None \<Rightarrow>
                (\<lparr>getter_id = created w, getter_body = SelectorGetter store selector\<rparr>,
                 w\<lparr>getterRegistry := (getterRegistry w)(selector :=
                      Some \<lparr>getter_id = created w, getter_body = SelectorGetter store selector\<rparr>),
                   created := Suc (created w)\<rparr>)) of
        (get, w1) \<Rightarrow>
          (if truthy mutation
           then (WritableComputedRef get
                   \<lparr>previousValue = VUndefined, set_mutation = mutation,
                    additionalPayload = extra, set_store = store\<rparr>, w1)
           else (ComputedRef get, w1)))"

text \<open>Reading and assigning \<open>.value\<close> of a computed reference.\<close>

definition get_value :: "env \<Rightarrow> computed_ref \<Rightarrow> world \<Rightarrow> (error + val) \<times> world" where
  "get_value env r w = run_getter env (getter_body (ref_getter r)) w"

fun set_value :: "env \<Rightarrow> computed_ref \<Rightarrow> val \<Rightarrow> world \<Rightarrow> (error + unit) \<times> computed_ref \<times> world" where
  "set_value env (ComputedRef g) v w = (Inr (), ComputedRef g, w)"
| "set_value env (WritableComputedRef g s) v w =
     (case setter_set env s v w of (r, s', w') \<Rightarrow> (r, WritableComputedRef g s', w'))"

text \<open>Assigning the same value \<open>n\<close> times in a row.\<close>

fun set_value_times :: "env \<Rightarrow> nat \<Rightarrow> computed_ref \<Rightarrow> val \<Rightarrow> world \<Rightarrow> computed_ref \<times> world" where
  "set_value_times env 0 r v w = (r, w)"
| "set_value_times env (Suc n) r v w =
     (case set_value env r v w of (res, r', w') \<Rightarrow> set_value_times env n r' v w')"

section \<open>src/utils.ts: useSelectorCreator\<close>

text \<open>
  The key of a cacheable call is \<open>args.map(...).toString()\<close>: the elements converted to
  strings and joined by commas, \<open>undefined\<close> and \<open>null\<close> as the empty string; converting a
  symbol raises a TypeError.
\<close>

definition digit_char :: "nat \<Rightarrow> char" where
  "digit_char d = ''0123456789'' ! d"

fun string_of_nat :: "nat \<Rightarrow> string" where
  "string_of_nat n =
     (if n < 10 then [digit_char n] else string_of_nat (n div 10) @ [digit_char (n mod 10)])"

declare string_of_nat.simps [simp del]

definition string_of_int :: "int \<Rightarrow> string" where
  "string_of_int i = (if i < 0 then CHR ''-'' # string_of_nat (nat (- i)) else string_of_nat (nat i))"

fun element_to_string :: "env \<Rightarrow> heap \<Rightarrow> val \<Rightarrow> error + string" where
  "element_to_string env h VUndefined = Inr []"
| "element_to_string env h VNull = Inr []"
| "element_to_string env h (VBool b) = Inr (if b then ''true'' else ''false'')"
| "element_to_string env h (VNum n) = Inr (string_of_int n)"
| "element_to_string env h VNaN = Inr ''NaN''"
| "element_to_string env h (VStr s) = Inr s"
| "element_to_string env h (VSym n) = Inl TypeError"
| "element_to_string env h (VObj a) = env_objectToString env h (VObj a)"
| "element_to_string env h (VProxy t) = env_objectToString env h (VProxy t)"
| "element_to_string env h (VFun f) = env_objectToString env h (VFun f)"

fun array_toString :: "env \<Rightarrow> heap \<Rightarrow> val list \<Rightarrow> error + string" where
  "array_toString env h [] = Inr []"
| "array_toString env h [x] = element_to_string env h x"
| "array_toString env h (x # y # ys) =
     (case element_to_string env h x of
        Inl e \<Rightarrow> Inl e
      | Inr s \<Rightarrow>
          (case array_toString env h (y # ys) of
             Inl e \<Rightarrow> Inl e
           | Inr t \<Rightarrow> Inr (s @ '','' @ t)))"

text \<open>
  \<open>args.some(arg => OBJECT_TYPES_TYPEOF_VALUES.includes(typeof arg) && !isRef(arg))\<close>
\<close>

definition shouldAlwaysRecompute :: "heap \<Rightarrow> val list \<Rightarrow> bool" where
  "shouldAlwaysRecompute h args =
     list_ex (\<lambda>arg. typeof arg \<in> set OBJECT_TYPES_TYPEOF_VALUES \<and> \<not> isRef h arg) args"

text \<open>
  \<open>useSelectorCreator(selectorFactory, ...args)\<close>, statement by statement: the key
  (\<open>undefined\<close> for a call that always recomputes); an empty Map registered for a factory
  that has none; then, when the call always recomputes or the factory's Map has no getter
  under the key, a new getter, returned at once when the call always recomputes and
  stored under the key otherwise; at the end the getter the Map holds under the key.
\<close>

definition useSelectorCreator ::
  "env \<Rightarrow> val \<Rightarrow> val list \<Rightarrow> world \<Rightarrow> (error + computed_ref) \<times> world" where
  "useSelectorCreator env selectorFactory args w =
     (let store = useStore env (storeKey w);
          recompute = shouldAlwaysRecompute (w_heap w) args
      in case (if recompute then Inr VUndefined
               else map_sum id VStr (array_toString env (w_heap w) (map (arg_value (w_heap w)) args))) of
           Inl e \<Rightarrow> (Inl e, w)
         | Inr k \<Rightarrow>
             (case (case selectorFactoryRegistry w selectorFactory of
                      Some registered \<Rightarrow> (registered, w)
                    | None \<Rightarrow>
                        (\<lambda>x. None,
                         w\<lparr>selectorFactoryRegistry :=
                              (selectorFactoryRegistry w)(selectorFactory := Some (\<lambda>x. None))\<rparr>)) of
                (getters, w1) \<Rightarrow>
                  (if recompute
                   then (Inr (ComputedRef \<lparr>getter_id = created w1,
                                           getter_body = FactoryGetter store selectorFactory args\<rparr>),
                         w1\<lparr>created := Suc (created w1)\<rparr>)
                   else (case getters k of
                           Some stored \<Rightarrow> (Inr (ComputedRef stored), w1)
                         | None \<Rightarrow>
                             (Inr (ComputedRef \<lparr>getter_id = created w1,
                                     getter_body = FactoryGetter store selectorFactory args\<rparr>),
                              w1\<lparr>selectorFactoryRegistry :=
                                    (selectorFactoryRegistry w1)(selectorFactory :=
                                       Some (getters(k := Some \<lparr>getter_id = created w1,
                                          getter_body = FactoryGetter store selectorFactory args\<rparr>))),
                                 created := Suc (created w1)\<rparr>)))))"

section \<open>Sequences of calls\<close>

text \<open>
  What a component can do with the module: bind a selector, bind a selector factory,
  configure the store key, read a computed reference, assign to one. A sequence of such
  operations is performed from left to right; an operation that raises leaves the world
  it reached.
\<close>

datatype operation =
    UseSelector val val "val list"
  | UseSelectorCreator val "val list"
  | UseStoreInjectionKey "key option"
  | GetValue computed_ref
  | SetValue computed_ref val

fun perform :: "env \<Rightarrow> operation \<Rightarrow> world \<Rightarrow> world" where
  "perform env (UseSelector selector mutation extra) w =
     snd (useSelector env selector mutation extra w)"
| "perform env (UseSelectorCreator selectorFactory args) w =
     snd (useSelectorCreator env selectorFactory args w)"
| "perform env (UseStoreInjectionKey k) w = useStoreInjectionKey k w"
| "perform env (GetValue r) w = snd (get_value env r w)"
| "perform env (SetValue r v) w = snd (snd (set_value env r v w))"

fun perform_all :: "env \<Rightarrow> operation list \<Rightarrow> world \<Rightarrow> world" where
  "perform_all env [] w = w"
| "perform_all env (x # xs) w = perform_all env xs (perform env x w)"

section \<open>A classification used in the statements\<close>

text \<open>The primitive values: everything but objects, views and functions.\<close>

fun primitive :: "val \<Rightarrow> bool" where
  "primitive (VObj a) = False"
| "primitive (VProxy t) = False"
| "primitive (VFun f) = False"
| "primitive v = True"

text \<open>What the \<open>get\<close> trap makes of a field value: a view of an object, anything else as it is.\<close>

definition wrap :: "val \<Rightarrow> val" where
  "wrap v = (if checkImmutability v then VProxy v else v)"

section \<open>Example: the stores and selectors of test/utils.test.ts\<close>

text \<open>
  The state \<open>{data: {codes: {a: 2}}, status: 1, a: 3, b: 3}\<close>: the root object at address 0,
  \<open>data\<close> at 1 and \<open>codes\<close> at 2.
\<close>

definition example_heap :: heap where
  "example_heap =
     [(\<lambda>k. None)(KStr ''data'' := Some (VObj 1), KStr ''status'' := Some (VNum 1),
                  KStr ''a'' := Some (VNum 3), KStr ''b'' := Some (VNum 3)),
      (\<lambda>k. None)(KStr ''codes'' := Some (VObj 2)),
      (\<lambda>k. None)(KStr ''a'' := Some (VNum 2))]"

text \<open>The pure selector \<open>state => state[name]\<close>.\<close>

definition field_selector :: "string \<Rightarrow> val list \<Rightarrow> heap \<Rightarrow> val result" where
  "field_selector name args h =
     (case args of [] \<Rightarrow> (Inl TypeError, h) | state # rest \<Rightarrow> (read h state (KStr name), h))"

text \<open>The combiner \<open>(a, b) => a * b\<close>.\<close>

definition multiply :: "val list \<Rightarrow> heap \<Rightarrow> val result" where
  "multiply args h =
     (case args of
        [VNum a, VNum b] \<Rightarrow> (Inr (VNum (a * b)), h)
      | _ \<Rightarrow> (Inr VNaN, h))"

text \<open>The selector \<open>state => ({})\<close>, whose result is a new object.\<close>

definition new_object :: "val list \<Rightarrow> heap \<Rightarrow> val result" where
  "new_object args h = (case alloc h (\<lambda>k. None) of (p, h') \<Rightarrow> (Inr (VObj p), h'))"

text \<open>The mutation \<open>SET_A\<close> of the store: \<open>state.a = payload\<close>.\<close>

definition example_store :: store where
  "example_store =
     \<lparr>store_id = 0, store_state = VObj 0,
      store_mutate = (\<lambda>type payload h. assign h (VObj 0) (KStr ''a'') payload)\<rparr>"

text \<open>
  The combiner \<open>data => { data.codes = null; return data.codes; }\<close> of the test
  "data mutation attempt inside selector".
\<close>

definition set_codes_null :: "val list \<Rightarrow> heap \<Rightarrow> val result" where
  "set_codes_null args h =
     (case args of
        [] \<Rightarrow> (Inl TypeError, h)
      | data # rest \<Rightarrow>
          (case assign h data (KStr ''codes'') VNull of
             (Inl e, h') \<Rightarrow> (Inl e, h')
           | (Inr u, h') \<Rightarrow> (read h' data (KStr ''codes''), h')))"

definition example_functions :: "fid \<Rightarrow> fn" where
  "example_functions f =
     (if f = 0 then \<lparr>fn_name = ''getA'', fn_call = field_selector ''a''\<rparr>
      else if f = 1 then \<lparr>fn_name = ''getB'', fn_call = field_selector ''b''\<rparr>
      else if f = 2 then \<lparr>fn_name = ''multiply'', fn_call = multiply\<rparr>
      else if f = 3 then \<lparr>fn_name = ''newObject'', fn_call = new_object\<rparr>
      else if f = 4 then \<lparr>fn_name = ''setA'', fn_call = (\<lambda>args h. (Inr VUndefined, h))\<rparr>
      else if f = 5 then \<lparr>fn_name = ''getData'', fn_call = field_selector ''data''\<rparr>
      else \<lparr>fn_name = ''setCodesNull'', fn_call = set_codes_null\<rparr>)"

definition example_env :: env where
  "example_env =
     \<lparr>env_functions = example_functions,
      env_provided = (\<lambda>k. Some example_store),
      env_objectToString = (\<lambda>h v. Inr ''[object Object]'')\<rparr>"

text \<open>
  The same environment with two composed selectors as function values:
  \<open>createSelector(getA, getB, multiply)\<close> as function 7 and
  \<open>createSelector(getData, setCodesNull)\<close> as function 8.
\<close>

definition composed_env :: env where
  "composed_env =
     example_env\<lparr>env_functions := (\<lambda>f.
        if f = 7 then \<lparr>fn_name = [], fn_call = composed_selector example_env [VFun 0, VFun 1] (VFun 2)\<rparr>
        else if f = 8 then \<lparr>fn_name = [], fn_call = composed_selector example_env [VFun 5] (VFun 6)\<rparr>
        else example_functions f)\<rparr>"

text \<open>The module before its first use: nothing configured, every registry empty.\<close>

definition example_world :: world where
  "example_world =
     \<lparr>w_heap = example_heap, storeKey = None, immutableStateRegistry = (\<lambda>k. None),
      getterRegistry = (\<lambda>s. None), selectorFactoryRegistry = (\<lambda>f. None),
      commits = [], created = 0\<rparr>"

section \<open>The read-only view\<close>

lemma handler_get_wrap:
  "k \<noteq> IMMUTABLE_STATE_PROXY_UNWRAP_KEY \<Longrightarrow>
   IMMUTABLE_STATE_PROXY_HANDLER_get h t k = wrap (get_prop h t k)"
  by (simp add: wrap_def checkImmutability_def)

lemma checkImmutability_VProxy [simp]: "checkImmutability (VProxy t) = (typeof t \<noteq> ''function'')"
  by (simp add: checkImmutability_def)

lemma checkImmutability_wrap [simp]: "checkImmutability (wrap v) = checkImmutability v"
  by (auto simp: wrap_def checkImmutability_def)

lemma getImmutableState_saved:
  "immutableStateRegistry w (case storeKey w of None \<Rightarrow> STORES_REGISTRY_DEFAULT_KEY | Some sk \<Rightarrow> sk)
     = Some view \<Longrightarrow>
   getImmutableState state w = (Inr view, w)"
  by (simp add: getImmutableState_def)

lemma getImmutableState_new:
  "immutableStateRegistry w (case storeKey w of None \<Rightarrow> STORES_REGISTRY_DEFAULT_KEY | Some sk \<Rightarrow> sk)
     = None \<Longrightarrow>
   checkImmutability state \<Longrightarrow>
   fst (getImmutableState state w) = Inr (VProxy state)"
  by (simp add: getImmutableState_def checkImmutability_def)

lemma getImmutableState_new_view:
  "immutableStateRegistry w (case storeKey w of None \<Rightarrow> STORES_REGISTRY_DEFAULT_KEY | Some sk \<Rightarrow> sk)
     = None \<Longrightarrow>
   fst (getImmutableState state w) = Inr view \<Longrightarrow> view = VProxy state"
  by (simp add: getImmutableState_def split: if_splits)

lemma view_field_is_view:
  assumes "k \<noteq> IMMUTABLE_STATE_PROXY_UNWRAP_KEY"
    and "checkImmutability (get_prop h (VProxy t) k)"
  shows "get_prop h (VProxy t) k = VProxy (get_prop h t k)"
proof -
  have eq: "get_prop h (VProxy t) k = wrap (get_prop h t k)"
    using assms(1) by (simp add: handler_get_wrap del: IMMUTABLE_STATE_PROXY_HANDLER_get.simps)
  then have "checkImmutability (get_prop h t k)"
    using assms(2) by simp
  then show ?thesis using eq by (simp add: wrap_def)
qed

lemma assign_view:
  "assign h (VProxy t) field x =
     (Inl (ReferenceError ''Mutations in selectors are not allowed.''), h)"
  by (simp add: IMMUTABLE_STATE_PROXY_HANDLER_set_def)

text \<open>
  C1. Write interception. Assigning any value to any field of a view (a Proxy with
  IMMUTABLE_STATE_PROXY_HANDLER, whatever its target and at whatever depth it was
  produced) raises the error \<open>Mutations in selectors are not allowed.\<close> and leaves the
  heap, hence the raw state, as it was. The views a selector meets are of this kind:
  an object-typed value read from a field of a view is again a view, and so rejects
  every assignment; and the top-level view that \<open>getImmutableState\<close> builds for a store
  key is the view of the state, and rejects every assignment too.
\<close>

theorem write_interception:
  "assign h (VProxy t) field x =
     (Inl (ReferenceError ''Mutations in selectors are not allowed.''), h)
   \<and> (k \<noteq> IMMUTABLE_STATE_PROXY_UNWRAP_KEY \<and> checkImmutability (get_prop h' (VProxy t) k) \<longrightarrow>
        (\<exists>t'. get_prop h' (VProxy t) k = VProxy t')
        \<and> assign h (get_prop h' (VProxy t) k) field x =
            (Inl (ReferenceError ''Mutations in selectors are not allowed.''), h))
   \<and> (immutableStateRegistry w
          (case storeKey w of None \<Rightarrow> STORES_REGISTRY_DEFAULT_KEY | Some sk \<Rightarrow> sk) = None
        \<and> fst (getImmutableState state w) = Inr view \<longrightarrow>
        view = VProxy state
        \<and> assign h view field x =
            (Inl (ReferenceError ''Mutations in selectors are not allowed.''), h))"
proof (intro conjI impI)
  show "assign h (VProxy t) field x =
     (Inl (ReferenceError ''Mutations in selectors are not allowed.''), h)"
    by (rule assign_view)
next
  assume a: "k \<noteq> IMMUTABLE_STATE_PROXY_UNWRAP_KEY \<and> checkImmutability (get_prop h' (VProxy t) k)"
  then have v: "get_prop h' (VProxy t) k = VProxy (get_prop h' t k)"
    using view_field_is_view [of k h' t] by blast
  then show "\<exists>t'. get_prop h' (VProxy t) k = VProxy t'" by blast
  show "assign h (get_prop h' (VProxy t) k) field x =
            (Inl (ReferenceError ''Mutations in selectors are not allowed.''), h)"
    unfolding v by (rule assign_view)
next
  assume a: "immutableStateRegistry w
          (case storeKey w of None \<Rightarrow> STORES_REGISTRY_DEFAULT_KEY | Some sk \<Rightarrow> sk) = None
        \<and> fst (getImmutableState state w) = Inr view"
  then show view: "view = VProxy state"
    using getImmutableState_new_view by blast
  show "assign h view field x =
            (Inl (ReferenceError ''Mutations in selectors are not allowed.''), h)"
    unfolding view by (rule assign_view)
qed

theorem write_interception_witness:
  "KStr ''data'' \<noteq> IMMUTABLE_STATE_PROXY_UNWRAP_KEY
   \<and> checkImmutability (get_prop example_heap (VProxy (VObj 0)) (KStr ''data''))
   \<and> get_prop example_heap (VProxy (VObj 0)) (KStr ''data'') = VProxy (VObj 1)
   \<and> assign example_heap (VProxy (VObj 1)) (KStr ''codes'') VNull =
        (Inl (ReferenceError ''Mutations in selectors are not allowed.''), example_heap)
   \<and> immutableStateRegistry example_world
        (case storeKey example_world of None \<Rightarrow> STORES_REGISTRY_DEFAULT_KEY | Some sk \<Rightarrow> sk) = None
   \<and> fst (getImmutableState (VObj 0) example_world) = Inr (VProxy (VObj 0))
   \<and> assign example_heap (VProxy (VObj 0)) (KStr ''codes'') VNull =
        (Inl (ReferenceError ''Mutations in selectors are not allowed.''), example_heap)"
proof -
  have k: "KStr ''data'' \<noteq> IMMUTABLE_STATE_PROXY_UNWRAP_KEY"
    by (simp add: IMMUTABLE_STATE_PROXY_UNWRAP_KEY_def)
  have g: "get_prop example_heap (VProxy (VObj 0)) (KStr ''data'') = VProxy (VObj 1)"
    by (simp add: example_heap_def IMMUTABLE_STATE_PROXY_UNWRAP_KEY_def)
  have c: "checkImmutability (get_prop example_heap (VProxy (VObj 0)) (KStr ''data''))"
    unfolding g by (simp add: checkImmutability_def)
  have r: "immutableStateRegistry example_world
        (case storeKey example_world of None \<Rightarrow> STORES_REGISTRY_DEFAULT_KEY | Some sk \<Rightarrow> sk) = None"
    by (simp add: example_world_def)
  have t: "fst (getImmutableState (VObj 0) example_world) = Inr (VProxy (VObj 0))"
    by (simp add: getImmutableState_def example_world_def)
  show ?thesis
    using k c g r t
      write_interception [where h = example_heap and t = "VObj 0" and field = "KStr ''codes''"
        and x = VNull and k = "KStr ''data''" and h' = example_heap and w = example_world
        and state = "VObj 0" and view = "VProxy (VObj 0)"]
    by (simp del: get_prop.simps assign.simps)
qed




text \<open>
  The view node obtained by reading an object-typed field through a view wraps the raw
  value of that field: unwrapping it gives the field of the target.
\<close>

lemma nested_view_unwrap:
  assumes "k \<noteq> IMMUTABLE_STATE_PROXY_UNWRAP_KEY"
    and "checkImmutability (get_prop h (VProxy t) k)"
  shows "read h' (get_prop h (VProxy t) k) IMMUTABLE_STATE_PROXY_UNWRAP_KEY = Inr (get_prop h t k)"
  unfolding view_field_is_view [OF assms] by (simp add: read_def)

section \<open>Composition\<close>

lemma array_set_append: "array_set xs (length xs) v = xs @ [v]"
  by (simp add: array_set_def)

lemma selectors_loop_eval_inputs:
  "length combinerArgs = i \<Longrightarrow> i \<le> length args \<Longrightarrow>
   selectors_loop env args state i combinerArgs h =
     (case eval_inputs env (drop i args) state h of
        (Inl e, h') \<Rightarrow> (Inl e, h')
      | (Inr vs, h') \<Rightarrow> (Inr (combinerArgs @ vs), h'))"
proof (induction env args state i combinerArgs h rule: selectors_loop.induct)
  case (1 env args state i combinerArgs h)
  show ?case
  proof (cases "i < length args")
    case False
    then show ?thesis
      unfolding selectors_loop.simps [of env args state i combinerArgs h]
      using "1.prems" by simp
  next
    case True
    then have drop: "drop i args = args ! i # drop (i + 1) args"
      by (simp add: Cons_nth_drop_Suc)
    show ?thesis
    proof (cases "call env (args ! i) [state] h")
      case (Pair r h')
      show ?thesis
      proof (cases r)
        case (Inl e)
        then show ?thesis
          unfolding selectors_loop.simps [of env args state i combinerArgs h]
          using True Pair drop by simp
      next
        case (Inr v)
        have len: "length (array_set combinerArgs i v) = i + 1"
          using "1.prems"(1) array_set_append [of combinerArgs v] by simp
        have "selectors_loop env args state (i + 1) (array_set combinerArgs i v) h' =
                (case eval_inputs env (drop (i + 1) args) state h' of
                   (Inl e, h'') \<Rightarrow> (Inl e, h'')
                 | (Inr vs, h'') \<Rightarrow> (Inr (array_set combinerArgs i v @ vs), h''))"
          using "1.IH" [OF True Pair [symmetric] Inr len] True by simp
        then show ?thesis
          unfolding selectors_loop.simps [of env args state i combinerArgs h]
          using True Pair Inr drop "1.prems"(1) array_set_append [of combinerArgs v]
          by (simp split: prod.splits sum.splits)
      qed
    qed
  qed
qed

lemma selectors_loop_all:
  "selectors_loop env args state 0 [] h = eval_inputs env args state h"
  using selectors_loop_eval_inputs [of "[]" 0 args env state h]
  by (simp split: prod.splits sum.splits)

lemma composed_selector_eq:
  "composed_selector env selectors combiner [state] h =
     (case eval_inputs env selectors state h of
        (Inl e, h') \<Rightarrow> (Inl e, h')
      | (Inr vs, h') \<Rightarrow> apply_null env combiner vs h')"
  by (simp add: composed_selector_def selectors_loop_all)

lemma eval_inputs_pure:
  "\<forall>s \<in> set selectors. call env s [state] h = (Inr (f s), h) \<Longrightarrow>
   eval_inputs env selectors state h = (Inr (map f selectors), h)"
  by (induction selectors) simp_all

lemma apply_null_function: "apply_null env (VFun c) vs h = call env (VFun c) vs h"
  by (simp add: apply_null_def)

text \<open>
  C2. Composition correctness: for every list of input selectors (also the empty one),
  every combiner \<open>c\<close> and every state, the selector that
  \<open>createSelector(s1, ..., sn, c)\<close> returns, applied to the state, does what the
  specification says: it evaluates the input selectors against the state in declaration
  order, passes their results to \<open>c\<close> in that order, and returns the result of \<open>c\<close>
  unchanged. An input selector that raises ends the evaluation with its error.
\<close>

theorem createSelector_composition:
  "\<exists>selector. createSelector env (selectors @ [VFun c]) = Inr selector
     \<and> (\<forall>state h. selector [state] h = compose_spec env selectors (VFun c) state h)"
  by (simp add: createSelector_def composed_selector_eq compose_spec_def apply_null_function
      split: prod.splits sum.splits del: call.simps)

lemma apply_null_primitive: "primitive v \<Longrightarrow> apply_null env v vs h = (Inl TypeError, h)"
  by (cases v) (simp_all add: apply_null_def)

text \<open>
  C9, as the code has it. \<open>createSelector\<close> checks nothing and never raises, whatever its
  arguments. When the combiner is missing or is a primitive value, the error is a
  TypeError, raised each time the composed selector is evaluated, after the input
  selectors have been evaluated (unless one of them raised first).
\<close>

theorem createSelector_error_deferred:
  "\<exists>selector. createSelector env args = Inr selector
     \<and> (args = [] \<or> primitive (last args) \<longrightarrow>
          (\<forall>state h. selector [state] h =
             (case eval_inputs env (butlast args) state h of
                (Inl e, h') \<Rightarrow> (Inl e, h')
              | (Inr vs, h') \<Rightarrow> (Inl TypeError, h'))))"
  by (auto simp: createSelector_def composed_selector_eq apply_null_primitive
      split: prod.splits sum.splits)

text \<open>
  C9 as stated fails: composing with no argument at all, or with the number 5 as the
  last argument, raises nothing at composition time.
\<close>

theorem createSelector_no_combiner_counterexample:
  "\<not> isl (createSelector example_env [])
   \<and> \<not> isl (createSelector example_env [VFun 0, VNum 5])"
  by (simp add: createSelector_def)

theorem createSelector_error_deferred_witness:
  "\<exists>selector. createSelector example_env [VFun 0, VNum 5] = Inr selector
     \<and> primitive (last [VFun 0, VNum 5])
     \<and> selector [VObj 0] example_heap = (Inl TypeError, example_heap)"
  using createSelector_error_deferred [of example_env "[VFun 0, VNum 5]"]
  by (auto simp: example_env_def example_functions_def field_selector_def read_def example_heap_def)

theorem createSelector_composition_witness:
  "\<exists>selector. createSelector example_env [VFun 0, VFun 1, VFun 2] = Inr selector
     \<and> selector [VObj 0] example_heap = (Inr (VNum 9), example_heap)"
  using createSelector_composition [of example_env "[VFun 0, VFun 1]" 2]
  by (auto simp: compose_spec_def example_env_def example_functions_def field_selector_def
      multiply_def read_def example_heap_def)

section \<open>The registries\<close>

lemma useSelector_stored:
  "getterRegistry w selector = Some g \<Longrightarrow>
   useSelector env selector mutation extra w =
     (if truthy mutation
      then WritableComputedRef g \<lparr>previousValue = VUndefined, set_mutation = mutation,
             additionalPayload = extra, set_store = useStore env (storeKey w)\<rparr>
      else ComputedRef g, w)"
  by (simp add: useSelector_def Let_def)

lemma useSelector_new:
  "getterRegistry w selector = None \<Longrightarrow>
   useSelector env selector VUndefined [] w =
     (ComputedRef \<lparr>getter_id = created w,
                   getter_body = SelectorGetter (useStore env (storeKey w)) selector\<rparr>,
      w\<lparr>getterRegistry := (getterRegistry w)(selector :=
           Some \<lparr>getter_id = created w,
                 getter_body = SelectorGetter (useStore env (storeKey w)) selector\<rparr>),
        created := Suc (created w)\<rparr>)"
  by (simp add: useSelector_def Let_def)

lemma useSelector_keeps:
  "getterRegistry w s = Some g \<Longrightarrow>
   getterRegistry (snd (useSelector env selector mutation extra w)) s = Some g"
  by (cases "getterRegistry w selector") (auto simp: useSelector_def Let_def)

lemma getImmutableState_getterRegistry:
  "getterRegistry (snd (getImmutableState state w)) = getterRegistry w"
  by (simp add: getImmutableState_def Let_def split: option.splits)

lemma eval_selector_getterRegistry:
  "getterRegistry (snd (eval_selector env selector state w)) = getterRegistry w"
  by (simp add: eval_selector_def split: prod.splits sum.splits)

lemma run_getter_getterRegistry:
  "getterRegistry (snd (run_getter env c w)) = getterRegistry w"
proof (cases c)
  case (SelectorGetter store selector)
  show ?thesis
  proof (cases store)
    case None
    then show ?thesis using SelectorGetter by simp
  next
    case (Some st)
    show ?thesis
      using SelectorGetter Some getImmutableState_getterRegistry [of "store_state st" w]
        eval_selector_getterRegistry [of env selector]
      by (auto split: prod.splits sum.splits)
  qed
next
  case (FactoryGetter store selectorFactory args)
  show ?thesis
  proof (cases store)
    case None
    then show ?thesis using FactoryGetter by simp
  next
    case (Some st)
    show ?thesis
      using FactoryGetter Some getImmutableState_getterRegistry [of "store_state st" w]
        eval_selector_getterRegistry [of env]
      by (auto split: prod.splits sum.splits)
  qed
qed

lemma setter_set_getterRegistry:
  "getterRegistry (snd (snd (setter_set env s v w))) = getterRegistry w"
  by (simp add: setter_set_def commit_def split: prod.splits option.splits)

lemma set_value_getterRegistry:
  "getterRegistry (snd (snd (set_value env r v w))) = getterRegistry w"
proof (cases r)
  case (ComputedRef g)
  then show ?thesis by simp
next
  case (WritableComputedRef g s)
  obtain res s' w' where e: "setter_set env s v w = (res, s', w')"
    by (cases "setter_set env s v w") auto
  show ?thesis
    using WritableComputedRef e setter_set_getterRegistry [of env s v w] by simp
qed

lemma useSelectorCreator_getterRegistry:
  "getterRegistry (snd (useSelectorCreator env f args w)) = getterRegistry w"
  by (simp add: useSelectorCreator_def Let_def split: sum.splits option.splits prod.splits)

lemma perform_keeps:
  "getterRegistry w s = Some g \<Longrightarrow> getterRegistry (perform env x w) s = Some g"
proof (cases x)
  case (UseSelector selector mutation extra)
  then show "getterRegistry w s = Some g \<Longrightarrow> ?thesis" by (simp add: useSelector_keeps)
next
  case (UseSelectorCreator f args)
  then show "getterRegistry w s = Some g \<Longrightarrow> ?thesis" by (simp add: useSelectorCreator_getterRegistry)
next
  case (UseStoreInjectionKey k)
  then show "getterRegistry w s = Some g \<Longrightarrow> ?thesis" by (simp add: useStoreInjectionKey_def)
next
  case (GetValue r)
  then show "getterRegistry w s = Some g \<Longrightarrow> ?thesis" by (simp add: get_value_def run_getter_getterRegistry)
next
  case (SetValue r v)
  then show "getterRegistry w s = Some g \<Longrightarrow> ?thesis" by (simp add: set_value_getterRegistry)
qed

lemma perform_all_keeps:
  "getterRegistry w s = Some g \<Longrightarrow> getterRegistry (perform_all env xs w) s = Some g"
  by (induction xs arbitrary: w) (simp_all add: perform_keeps)

text \<open>
  C4. Read memoization identity: after a read-only \<open>useSelector\<close> call with a selector,
  the registry holds for that selector the getter the call returned, and every later
  read-only call with the same selector, after any sequence of operations of the module
  and whatever store is injected by then, returns that same getter and leaves the module
  as it is: no getter is constructed and nothing is stored.
\<close>

theorem useSelector_reuses_getter:
  assumes "useSelector env selector VUndefined [] w = (r1, w1)"
  shows "getterRegistry w1 selector = Some (ref_getter r1)
       \<and> useSelector env' selector VUndefined [] (perform_all env'' ops w1) =
           (r1, perform_all env'' ops w1)"
proof -
  have stored: "getterRegistry w1 selector = Some (ref_getter r1)"
  proof (cases "getterRegistry w selector")
    case None
    then show ?thesis using assms by (auto simp: useSelector_new)
  next
    case (Some g)
    then show ?thesis using assms by (auto simp: useSelector_stored)
  qed
  have r1: "r1 = ComputedRef (ref_getter r1)"
    using assms by (cases "getterRegistry w selector") (auto simp: useSelector_new useSelector_stored)
  have "getterRegistry (perform_all env'' ops w1) selector = Some (ref_getter r1)"
    using stored by (rule perform_all_keeps)
  then have "useSelector env' selector VUndefined [] (perform_all env'' ops w1) =
               (ComputedRef (ref_getter r1), perform_all env'' ops w1)"
    by (simp add: useSelector_stored)
  then show ?thesis using stored r1 by simp
qed

theorem useSelector_reuses_getter_witness:
  "useSelector example_env (VFun 0) VUndefined [] example_world =
     (ComputedRef \<lparr>getter_id = 0, getter_body = SelectorGetter (Some example_store) (VFun 0)\<rparr>,
      example_world\<lparr>getterRegistry := (\<lambda>s. None)(VFun 0 :=
           Some \<lparr>getter_id = 0, getter_body = SelectorGetter (Some example_store) (VFun 0)\<rparr>),
        created := Suc 0\<rparr>)
   \<and> fst (useSelector example_env (VFun 0) VUndefined []
        (perform_all example_env [UseSelector (VFun 1) VUndefined []]
           (snd (useSelector example_env (VFun 0) VUndefined [] example_world)))) =
      ComputedRef \<lparr>getter_id = 0, getter_body = SelectorGetter (Some example_store) (VFun 0)\<rparr>"
proof -
  have first: "useSelector example_env (VFun 0) VUndefined [] example_world =
     (ComputedRef \<lparr>getter_id = 0, getter_body = SelectorGetter (Some example_store) (VFun 0)\<rparr>,
      example_world\<lparr>getterRegistry := (\<lambda>s. None)(VFun 0 :=
           Some \<lparr>getter_id = 0, getter_body = SelectorGetter (Some example_store) (VFun 0)\<rparr>),
        created := Suc 0\<rparr>)"
    by (simp add: useSelector_def Let_def example_world_def example_env_def useStore_def)
  show ?thesis
    using first useSelector_reuses_getter [OF first, of example_env example_env
        "[UseSelector (VFun 1) VUndefined []]"]
    by simp
qed

text \<open>
  C5 fails on the code: \<open>useSelector\<close> takes its registry from the one \<open>getGetterRegistry\<close>
  whether or not a mutation is given. A selector bound read-only and then with the
  mutation \<open>SET_A\<close> gets the same getter both times, and the second call constructs none.
\<close>

theorem useSelector_single_registry:
  "(case useSelector example_env (VFun 0) VUndefined [] example_world of
      (r1, w1) \<Rightarrow>
        (case useSelector example_env (VFun 0) (VStr ''SET_A'') [] w1 of
           (r2, w2) \<Rightarrow> ref_getter r2 = ref_getter r1 \<and> getter_id (ref_getter r2) = 0
                       \<and> created w1 = 1 \<and> created w2 = 1))"
  by (simp add: useSelector_def Let_def example_world_def example_env_def useStore_def)

lemma useSelectorCreator_recompute:
  "shouldAlwaysRecompute (w_heap w) args \<Longrightarrow>
   useSelectorCreator env selectorFactory args w =
     (Inr (ComputedRef \<lparr>getter_id = created w,
             getter_body = FactoryGetter (useStore env (storeKey w)) selectorFactory args\<rparr>),
      w\<lparr>selectorFactoryRegistry :=
           (case selectorFactoryRegistry w selectorFactory of
              None \<Rightarrow> (selectorFactoryRegistry w)(selectorFactory := Some (\<lambda>x. None))
            | Some registered \<Rightarrow> selectorFactoryRegistry w),
        created := Suc (created w)\<rparr>)"
  by (cases "selectorFactoryRegistry w selectorFactory") (simp_all add: useSelectorCreator_def)

text \<open>
  C6 fails on the code: a call with an object argument that is not a reference, for a
  factory the registry does not know yet, registers an empty Map for the factory before
  it returns the uncached getter.
\<close>

theorem useSelectorCreator_registers_factory:
  "shouldAlwaysRecompute (w_heap example_world) [VObj 1]
   \<and> selectorFactoryRegistry example_world (VFun 3) = None
   \<and> selectorFactoryRegistry (snd (useSelectorCreator example_env (VFun 3) [VObj 1] example_world))
        (VFun 3) = Some (\<lambda>x. None)"
proof -
  have "shouldAlwaysRecompute (w_heap example_world) [VObj 1]"
    by (simp add: shouldAlwaysRecompute_def OBJECT_TYPES_TYPEOF_VALUES_def isRef_def
        example_world_def example_heap_def)
  then show ?thesis
    by (simp add: useSelectorCreator_recompute) (simp add: example_world_def)
qed


section \<open>The setter of a writable bind\<close>

lemma setter_set_equal:
  "strict_eq v (previousValue s) \<Longrightarrow> setter_set env s v w = (Inr (), s, w)"
  by (simp add: setter_set_def)

lemma setter_set_commits:
  assumes "\<not> strict_eq v (previousValue s)" and "set_store s = Some st"
  shows "fst (snd (setter_set env s v w)) = s\<lparr>previousValue := v\<rparr>"
    and "commits (snd (snd (setter_set env s v w))) =
           commits w @ [(store_id st, mutation_type env (set_mutation s),
                         fst (make_payload (additionalPayload s) v (w_heap w)))]"
    and "(fst (setter_set env s v w), w_heap (snd (snd (setter_set env s v w)))) =
           store_mutate st (mutation_type env (set_mutation s))
             (fst (make_payload (additionalPayload s) v (w_heap w)))
             (snd (make_payload (additionalPayload s) v (w_heap w)))"
  using assms by (simp_all add: setter_set_def commit_def split: prod.splits)

lemma set_value_times_equal:
  "strict_eq v (previousValue s) \<Longrightarrow>
   set_value_times env n (WritableComputedRef g s) v w = (WritableComputedRef g s, w)"
  by (induction n) (simp_all add: setter_set_equal)

text \<open>
  C7, as the code has it. The setter compares the incoming value with \<open>previousValue\<close>
  (the last value it recorded, \<open>undefined\<close> at first) by strict equality and does nothing
  when they are equal. Hence, with a store injected, assigning \<open>n \<ge> 1\<close> times in a row a
  value that is not strictly equal to \<open>previousValue\<close> and is strictly equal to itself
  issues exactly one commit.
\<close>

theorem setter_deduplicates:
  assumes "set_store s = Some st"
  shows "(strict_eq v (previousValue s) \<longrightarrow>
            set_value env (WritableComputedRef g s) v w = (Inr (), WritableComputedRef g s, w))
       \<and> (\<not> strict_eq v (previousValue s) \<and> strict_eq v v \<and> 0 < n \<longrightarrow>
            commits (snd (set_value_times env n (WritableComputedRef g s) v w)) =
              commits w @ [(store_id st, mutation_type env (set_mutation s),
                            fst (make_payload (additionalPayload s) v (w_heap w)))])"
proof (intro conjI impI)
  assume "strict_eq v (previousValue s)"
  then show "set_value env (WritableComputedRef g s) v w = (Inr (), WritableComputedRef g s, w)"
    by (simp add: setter_set_equal)
next
  assume a: "\<not> strict_eq v (previousValue s) \<and> strict_eq v v \<and> 0 < n"
  then obtain m where n: "n = Suc m" by (cases n) auto
  obtain res w' where first: "setter_set env s v w = (res, s\<lparr>previousValue := v\<rparr>, w')"
    using setter_set_commits(1) [of v s st env w] a assms
    by (cases "setter_set env s v w") auto
  have c: "commits w' = commits w @ [(store_id st, mutation_type env (set_mutation s),
                            fst (make_payload (additionalPayload s) v (w_heap w)))]"
    using setter_set_commits(2) [of v s st env w] a assms first by simp
  have "set_value_times env m (WritableComputedRef g (s\<lparr>previousValue := v\<rparr>)) v w' =
          (WritableComputedRef g (s\<lparr>previousValue := v\<rparr>), w')"
    using a by (simp add: set_value_times_equal)
  then show "commits (snd (set_value_times env n (WritableComputedRef g s) v w)) =
              commits w @ [(store_id st, mutation_type env (set_mutation s),
                            fst (make_payload (additionalPayload s) v (w_heap w)))]"
    using n first c by simp
qed

lemma example_bind:
  "useSelector example_env (VFun 0) (VStr ''SET_A'') extra example_world =
     (WritableComputedRef
        \<lparr>getter_id = 0, getter_body = SelectorGetter (Some example_store) (VFun 0)\<rparr>
        \<lparr>previousValue = VUndefined, set_mutation = VStr ''SET_A'',
         additionalPayload = extra, set_store = Some example_store\<rparr>,
      example_world\<lparr>getterRegistry := (\<lambda>s. None)(VFun 0 :=
           Some \<lparr>getter_id = 0, getter_body = SelectorGetter (Some example_store) (VFun 0)\<rparr>),
        created := Suc 0\<rparr>)"
  by (simp add: useSelector_def Let_def example_world_def example_env_def useStore_def)

text \<open>
  C7 as stated fails: on a new writable bind, assigning \<open>undefined\<close> five times in a row
  commits nothing, since \<open>previousValue\<close> is \<open>undefined\<close> at first; and assigning \<open>NaN\<close>
  five times commits five times, since \<open>NaN\<close> is not strictly equal to itself.
\<close>

theorem setter_deduplicates_counterexample:
  "(case useSelector example_env (VFun 0) (VStr ''SET_A'') [] example_world of
      (r, w) \<Rightarrow>
        commits (snd (set_value_times example_env 5 r VUndefined w)) = []
        \<and> length (commits (snd (set_value_times example_env 5 r VNaN w))) = 5)"
  unfolding example_bind
  by (simp add: numeral_eq_Suc setter_set_def strict_eq_def make_payload_def
      commit_def example_store_def mutation_type_def example_world_def)

theorem setter_deduplicates_witness:
  "(case useSelector example_env (VFun 0) (VStr ''SET_A'') [] example_world of
      (r, w) \<Rightarrow>
        commits (snd (set_value_times example_env 5 r (VNum 10) w)) = [(0, VStr ''SET_A'', VNum 10)])"
  unfolding example_bind
  using setter_deduplicates [of
      "\<lparr>previousValue = VUndefined, set_mutation = VStr ''SET_A'',
         additionalPayload = [], set_store = Some example_store\<rparr>"
      example_store "VNum 10" example_env
      "\<lparr>getter_id = 0, getter_body = SelectorGetter (Some example_store) (VFun 0)\<rparr>" _ 5]
  by (simp add: strict_eq_def make_payload_def mutation_type_def example_store_def
      example_world_def)

lemma array_elems_array_obj: "array_elems (array_obj xs) = xs"
  by (rule nth_equalityI) (simp_all add: array_elems_def array_obj_def)

text \<open>
  C8. For a writable bind made by \<open>useSelector(selector, mutation, e1, ..., ek)\<close> with a
  store injected, at any time of its life (\<open>pv\<close> is the value recorded last), assigning a
  value \<open>v\<close> not strictly equal to \<open>pv\<close> adds exactly one call of \<open>store.commit\<close>. Its
  payload is \<open>v\<close> itself when \<open>k = 0\<close>, and a new array, which holds \<open>e1, ..., ek, v\<close> when
  the store receives it, when \<open>k \<ge> 1\<close>. Its type is the string when \<open>mutation\<close> is a
  string and the declared name of the function when \<open>mutation\<close> is a function.
\<close>

theorem setter_commit_payload:
  assumes "useSelector env selector mutation extra w0 = (WritableComputedRef g s, w1)"
    and "useStore env (storeKey w0) = Some st"
    and "\<not> strict_eq v pv"
  shows "commits (snd (snd (setter_set env (s\<lparr>previousValue := pv\<rparr>) v w))) =
           commits w @ [(store_id st, mutation_type env mutation,
                         if extra = [] then v else VObj (length (w_heap w)))]
       \<and> (extra \<noteq> [] \<longrightarrow>
            (\<exists>h1. (fst (setter_set env (s\<lparr>previousValue := pv\<rparr>) v w),
                    w_heap (snd (snd (setter_set env (s\<lparr>previousValue := pv\<rparr>) v w)))) =
                     store_mutate st (mutation_type env mutation) (VObj (length (w_heap w))) h1
                 \<and> array_elems (h1 ! length (w_heap w)) = extra @ [v]))
       \<and> (mutation = VStr name \<longrightarrow> mutation_type env mutation = VStr name)
       \<and> (mutation = VFun f \<longrightarrow> mutation_type env mutation = VStr (fn_name (env_functions env f)))"
proof -
  have s: "set_mutation s = mutation" "additionalPayload s = extra" "set_store s = Some st"
    using assms(1,2)
    by (auto simp: useSelector_def Let_def split: option.splits if_splits)
  let ?s = "s\<lparr>previousValue := pv\<rparr>"
  have pre: "\<not> strict_eq v (previousValue ?s)" "set_store ?s = Some st"
    using assms(3) s by simp_all
  note c = setter_set_commits [OF pre, of env w]
  have 1: "commits (snd (snd (setter_set env ?s v w))) =
           commits w @ [(store_id st, mutation_type env mutation,
                         if extra = [] then v else VObj (length (w_heap w)))]"
    using c(2) s by (simp add: make_payload_def alloc_def)
  have 2: "extra \<noteq> [] \<longrightarrow>
            (\<exists>h1. (fst (setter_set env ?s v w), w_heap (snd (snd (setter_set env ?s v w)))) =
                     store_mutate st (mutation_type env mutation) (VObj (length (w_heap w))) h1
                 \<and> array_elems (h1 ! length (w_heap w)) = extra @ [v])"
  proof
    assume e: "extra \<noteq> []"
    have "(fst (setter_set env ?s v w), w_heap (snd (snd (setter_set env ?s v w)))) =
            store_mutate st (mutation_type env mutation) (VObj (length (w_heap w)))
              (w_heap w @ [array_obj (extra @ [v])])"
      using c(3) s e by (simp add: make_payload_def alloc_def)
    moreover have "array_elems ((w_heap w @ [array_obj (extra @ [v])]) ! length (w_heap w)) = extra @ [v]"
      by (simp add: array_elems_array_obj)
    ultimately show "\<exists>h1. (fst (setter_set env ?s v w), w_heap (snd (snd (setter_set env ?s v w)))) =
                     store_mutate st (mutation_type env mutation) (VObj (length (w_heap w))) h1
                 \<and> array_elems (h1 ! length (w_heap w)) = extra @ [v]"
      by blast
  qed
  have 3: "mutation = VStr name \<longrightarrow> mutation_type env mutation = VStr name"
    by (simp add: mutation_type_def)
  have 4: "mutation = VFun f \<longrightarrow> mutation_type env mutation = VStr (fn_name (env_functions env f))"
    by (simp add: mutation_type_def)
  show ?thesis using 1 2 3 4 by blast
qed

theorem setter_commit_payload_witness:
  "useSelector example_env (VFun 0) (VFun 4) [VNum 20] example_world =
     (WritableComputedRef
        \<lparr>getter_id = 0, getter_body = SelectorGetter (Some example_store) (VFun 0)\<rparr>
        \<lparr>previousValue = VUndefined, set_mutation = VFun 4,
         additionalPayload = [VNum 20], set_store = Some example_store\<rparr>,
      example_world\<lparr>getterRegistry := (\<lambda>s. None)(VFun 0 :=
           Some \<lparr>getter_id = 0, getter_body = SelectorGetter (Some example_store) (VFun 0)\<rparr>),
        created := Suc 0\<rparr>)
   \<and> useStore example_env (storeKey example_world) = Some example_store
   \<and> \<not> strict_eq (VNum 10) VUndefined
   \<and> commits (snd (snd (setter_set example_env
          \<lparr>previousValue = VUndefined, set_mutation = VFun 4,
           additionalPayload = [VNum 20], set_store = Some example_store\<rparr>
          (VNum 10) example_world))) = [(0, VStr ''setA'', VObj 3)]"
proof -
  have st: "useStore example_env (storeKey example_world) = Some example_store"
    by (simp add: useStore_def example_env_def)
  have ne: "\<not> strict_eq (VNum 10) VUndefined"
    by (simp add: strict_eq_def)
  have bind: "useSelector example_env (VFun 0) (VFun 4) [VNum 20] example_world =
     (WritableComputedRef
        \<lparr>getter_id = 0, getter_body = SelectorGetter (Some example_store) (VFun 0)\<rparr>
        \<lparr>previousValue = VUndefined, set_mutation = VFun 4,
         additionalPayload = [VNum 20], set_store = Some example_store\<rparr>,
      example_world\<lparr>getterRegistry := (\<lambda>s. None)(VFun 0 :=
           Some \<lparr>getter_id = 0, getter_body = SelectorGetter (Some example_store) (VFun 0)\<rparr>),
        created := Suc 0\<rparr>)"
    by (simp add: useSelector_def Let_def example_world_def example_env_def useStore_def)
  have "commits (snd (snd (setter_set example_env
          (\<lparr>previousValue = VUndefined, set_mutation = VFun 4,
            additionalPayload = [VNum 20], set_store = Some example_store\<rparr>\<lparr>previousValue := VUndefined\<rparr>)
          (VNum 10) example_world))) =
        commits example_world @
          [(store_id example_store, mutation_type example_env (VFun 4),
            if [VNum 20] = [] then VNum 10 else VObj (length (w_heap example_world)))]"
    using setter_commit_payload [OF bind st ne, where w = example_world] by blast
  moreover have "commits example_world = []" "store_id example_store = 0"
    "length (w_heap example_world) = 3"
    by (simp_all add: example_world_def example_store_def example_heap_def)
  moreover have "mutation_type example_env (VFun 4) = VStr ''setA''"
    by (simp add: mutation_type_def example_env_def example_functions_def)
  ultimately show ?thesis
    using st ne bind by simp
qed

section \<open>The getter and results that are not views\<close>

text \<open>
  C10. When the selector returns a raw object (one that is not a view, such as an object
  made inside a combiner) that does not carry the unwrap key, the getter that
  \<open>useSelector\<close> builds returns \<open>undefined\<close> and not that object: the result is
  object-typed and not null, so it is replaced by its field under the unwrap key.
\<close>

theorem getter_plain_object_undefined:
  assumes "getImmutableState (store_state st) w = (Inr state, w1)"
    and "call env selector [state] (w_heap w1) = (Inr (VObj a), h')"
    and "a < length h'"
    and "(h' ! a) IMMUTABLE_STATE_PROXY_UNWRAP_KEY = None"
  shows "run_getter env (SelectorGetter (Some st) selector) w = (Inr VUndefined, w1\<lparr>w_heap := h'\<rparr>)"
  using assms
  by (simp add: eval_selector_def unwrap_result_def checkImmutability_def)

theorem getter_plain_object_undefined_witness:
  "getImmutableState (store_state example_store) example_world =
     (Inr (VProxy (VObj 0)),
      example_world\<lparr>immutableStateRegistry := (\<lambda>k. None)(STORES_REGISTRY_DEFAULT_KEY := Some (VProxy (VObj 0)))\<rparr>)
   \<and> call example_env (VFun 3) [VProxy (VObj 0)] example_heap =
       (Inr (VObj 3), example_heap @ [\<lambda>k. None])
   \<and> fst (run_getter example_env (SelectorGetter (Some example_store) (VFun 3)) example_world) =
       Inr VUndefined"
proof -
  have g: "getImmutableState (store_state example_store) example_world =
     (Inr (VProxy (VObj 0)),
      example_world\<lparr>immutableStateRegistry := (\<lambda>k. None)(STORES_REGISTRY_DEFAULT_KEY := Some (VProxy (VObj 0)))\<rparr>)"
    by (simp add: getImmutableState_def example_world_def example_store_def)
  have c: "call example_env (VFun 3) [VProxy (VObj 0)]
             (w_heap (example_world\<lparr>immutableStateRegistry := (\<lambda>k. None)(STORES_REGISTRY_DEFAULT_KEY := Some (VProxy (VObj 0)))\<rparr>)) =
       (Inr (VObj 3), example_heap @ [\<lambda>k. None])"
    by (simp add: example_env_def example_functions_def new_object_def alloc_def example_world_def
        example_heap_def)
  have a: "3 < length (example_heap @ [\<lambda>k. None])"
    by (simp add: example_heap_def)
  have n: "((example_heap @ [\<lambda>k. None]) ! 3) IMMUTABLE_STATE_PROXY_UNWRAP_KEY = None"
    by (simp add: example_heap_def)
  show ?thesis
    using g c getter_plain_object_undefined [OF g c a n]
    by (simp add: example_world_def)
qed


section \<open>The scenarios of the test suite\<close>

text \<open>
  "using selector in component": on the state with \<open>a = 3\<close> and \<open>b = 3\<close> the selector
  \<open>createSelector(getA, getB, (a, b) => a * b)\<close>, bound read-only, evaluates to 9.
\<close>

lemma scenario_A:
  "(case useSelector composed_env (VFun 7) VUndefined [] example_world of
      (r, w) \<Rightarrow> fst (get_value composed_env r w) = Inr (VNum 9))"
  by (simp add: useSelector_def Let_def get_value_def useStore_def composed_env_def example_env_def
      example_world_def example_store_def getImmutableState_def eval_selector_def
      composed_selector_eq apply_null_def example_functions_def field_selector_def multiply_def
      read_def example_heap_def IMMUTABLE_STATE_PROXY_UNWRAP_KEY_def unwrap_result_def
      checkImmutability_def)

text \<open>
  "data mutation attempt inside selector": the selector whose combiner assigns
  \<open>data.codes = null\<close> raises, returns no value and leaves the state as it was.
\<close>

lemma scenario_D:
  "(case useSelector composed_env (VFun 8) VUndefined [] example_world of
      (r, w) \<Rightarrow>
        fst (get_value composed_env r w) =
          Inl (ReferenceError ''Mutations in selectors are not allowed.'')
        \<and> w_heap (snd (get_value composed_env r w)) = example_heap)"
  by (simp add: useSelector_def Let_def get_value_def useStore_def composed_env_def example_env_def
      example_world_def example_store_def getImmutableState_def eval_selector_def
      composed_selector_eq apply_null_def example_functions_def field_selector_def
      set_codes_null_def IMMUTABLE_STATE_PROXY_HANDLER_set_def
      read_def example_heap_def IMMUTABLE_STATE_PROXY_UNWRAP_KEY_def unwrap_result_def
      checkImmutability_def)

text \<open>
  "data mutation outside selector": the value of a bound \<open>state => state.data\<close> is the
  raw object, which can be assigned to.
\<close>

lemma mutation_outside_selector:
  "(case useSelector example_env (VFun 5) VUndefined [] example_world of
      (r, w) \<Rightarrow> fst (get_value example_env r w) = Inr (VObj 1))"
  by (simp add: useSelector_def Let_def get_value_def useStore_def example_env_def
      example_world_def example_store_def getImmutableState_def eval_selector_def
      example_functions_def field_selector_def
      read_def example_heap_def IMMUTABLE_STATE_PROXY_UNWRAP_KEY_def unwrap_result_def
      checkImmutability_def)

text \<open>The key of \<open>useSelectorCreator(selectorFactory, 1, true, "not")\<close>.\<close>

lemma factory_key:
  "array_toString example_env example_heap [VNum 1, VBool True, VStr ''not''] = Inr ''1,true,not''"
  by (simp add: string_of_int_def string_of_nat.simps digit_char_def)

end
